theory Spec2Isabelle
  imports Main "HOL-Library.AList" "HOL-Library.Char_ord" "HOL-Library.List_Lexorder"
begin

section \<open>Python values\<close>

text \<open>
  The embedding follows Python 3 (3.7 or later): a \<open>str\<close> is a sequence of Unicode code
  points and a \<open>dict\<close> iterates in insertion order. A \<open>string\<close> of the model is a
  sequence of code points below 256 (the Latin-1 block of Unicode), one \<open>char\<close> each.

  Every \<open>assert\<close> of the source raises \<open>AssertionError\<close> with the message the source
  gives it (the empty message when it gives none); the failures the specification names
  are these assertions. Reading a member that an \<open>Enum\<close> class does not have raises
  \<open>AttributeError\<close>; \<open>max\<close> of an empty sequence raises \<open>ValueError\<close>.
\<close>

datatype error =
    AssertionError string
  | AttributeError string
  | KeyError
  | ValueError string

text \<open>
  A method that mutates its object and may raise afterwards is modelled by the pair of
  its outcome and the state of the object when it stops.
\<close>

datatype outcome = Returned | Raised error

subsection \<open>Dictionaries\<close>

text \<open>
  A \<open>dict\<close> is the list of its items in insertion order. \<open>d[k] = v\<close> replaces the value
  of a key that is present, where it stands, and appends a new key at the end.
\<close>

type_synonym ('k, 'v) dict = "('k \<times> 'v) list"

definition dict_contains :: "('k, 'v) dict \<Rightarrow> 'k \<Rightarrow> bool" where
  "dict_contains d k = (k \<in> set (map fst d))"

definition dict_set :: "('k, 'v) dict \<Rightarrow> 'k \<Rightarrow> 'v \<Rightarrow> ('k, 'v) dict" where
  "dict_set d k v = AList.update k v d"

definition dict_keys :: "('k, 'v) dict \<Rightarrow> 'k list" where
  "dict_keys d = map fst d"

definition dict_values :: "('k, 'v) dict \<Rightarrow> 'v list" where
  "dict_values d = map snd d"

definition dict_get :: "('k, 'v) dict \<Rightarrow> 'k \<Rightarrow> 'v option" where
  "dict_get d k = map_of d k"

subsection \<open>Strings and integers\<close>

text \<open>
  \<open>str.isalnum\<close>: the string is not empty and each of its characters is a letter, a
  decimal, a digit or a numeric of Unicode. Below 256 these are the ASCII digits and
  letters, the letters U+00AA, U+00B5, U+00BA, U+00C0 to U+00D6, U+00D8 to U+00F6 and
  U+00F8 to U+00FF, the digits U+00B2, U+00B3, U+00B9 and the fractions U+00BC to U+00BE.
\<close>

definition char_isalnum :: "char \<Rightarrow> bool" where
  "char_isalnum c =
     (let n = (of_char c :: nat) in
        (48 \<le> n \<and> n \<le> 57) \<or> (65 \<le> n \<and> n \<le> 90) \<or> (97 \<le> n \<and> n \<le> 122) \<or>
        n = 170 \<or> n = 178 \<or> n = 179 \<or> n = 181 \<or> n = 185 \<or> n = 186 \<or>
        (188 \<le> n \<and> n \<le> 190) \<or> (192 \<le> n \<and> n \<le> 214) \<or>
        (216 \<le> n \<and> n \<le> 246) \<or> (248 \<le> n \<and> n \<le> 255))"

definition str_isalnum :: "string \<Rightarrow> bool" where
  "str_isalnum s = (s \<noteq> [] \<and> list_all char_isalnum s)"

text \<open>The character class \<open>[a-zA-Z0-9]\<close> of a regular expression: ASCII only.\<close>

definition re_alnum :: "char \<Rightarrow> bool" where
  "re_alnum c =
     (let n = (of_char c :: nat) in
        (97 \<le> n \<and> n \<le> 122) \<or> (65 \<le> n \<and> n \<le> 90) \<or> (48 \<le> n \<and> n \<le> 57))"

text \<open>\<open>str\<close> of an integer: its decimal digits, after a minus sign when it is negative.\<close>

function str_of_nat :: "nat \<Rightarrow> string" where
  "str_of_nat n =
     (if n < 10 then [char_of (48 + n)]
      else str_of_nat (n div 10) @ [char_of (48 + n mod 10)])"
  by pat_completeness auto
termination
  by (relation "measure (\<lambda>n. n)") auto

declare str_of_nat.simps [simp del]

definition str_of_int :: "int \<Rightarrow> string" where
  "str_of_int i = (if i < 0 then CHR ''-'' # str_of_nat (nat (- i)) else str_of_nat (nat i))"

text \<open>
  \<open>max\<close> of a list: the first of its greatest elements; \<open>ValueError\<close> on the empty list.
\<close>

fun py_max :: "int list \<Rightarrow> error + int" where
  "py_max [] = Inl (ValueError ''max() arg is an empty sequence'')"
| "py_max (x # xs) = Inr (fold (\<lambda>item max_item. if item > max_item then item else max_item) xs x)"

section \<open>e3.aws.cfn\<close>

subsection \<open>Resource types\<close>

datatype AWSType =
    EC2_INSTANCE
  | EC2_INTERNET_GATEWAY
  | EC2_ROUTE
  | EC2_ROUTE_TABLE
  | EC2_SECURITY_GROUP
  | EC2_SUBNET
  | EC2_SUBNET_ROUTE_TABLE_ASSOCIATION
  | EC2_VOLUME
  | EC2_VPC
  | EC2_VPC_GATEWAY_ATTACHMENT
  | IAM_ROLE
  | IAM_POLICY
  | IAM_INSTANCE_PROFILE
  | ROUTE53_RECORDSET
  | S3_BUCKET

text \<open>The members of the enumeration in the order of the class body, and their names.\<close>

definition AWSType_members :: "AWSType list" where
  "AWSType_members =
     [EC2_INSTANCE, EC2_INTERNET_GATEWAY, EC2_ROUTE, EC2_ROUTE_TABLE, EC2_SECURITY_GROUP,
      EC2_SUBNET, EC2_SUBNET_ROUTE_TABLE_ASSOCIATION, EC2_VOLUME, EC2_VPC,
      EC2_VPC_GATEWAY_ATTACHMENT, IAM_ROLE, IAM_POLICY, IAM_INSTANCE_PROFILE,
      ROUTE53_RECORDSET, S3_BUCKET]"

fun AWSType_name :: "AWSType \<Rightarrow> string" where
  "AWSType_name EC2_INSTANCE = ''EC2_INSTANCE''"
| "AWSType_name EC2_INTERNET_GATEWAY = ''EC2_INTERNET_GATEWAY''"
| "AWSType_name EC2_ROUTE = ''EC2_ROUTE''"
| "AWSType_name EC2_ROUTE_TABLE = ''EC2_ROUTE_TABLE''"
| "AWSType_name EC2_SECURITY_GROUP = ''EC2_SECURITY_GROUP''"
| "AWSType_name EC2_SUBNET = ''EC2_SUBNET''"
| "AWSType_name EC2_SUBNET_ROUTE_TABLE_ASSOCIATION = ''EC2_SUBNET_ROUTE_TABLE_ASSOCIATION''"
| "AWSType_name EC2_VOLUME = ''EC2_VOLUME''"
| "AWSType_name EC2_VPC = ''EC2_VPC''"
| "AWSType_name EC2_VPC_GATEWAY_ATTACHMENT = ''EC2_VPC_GATEWAY_ATTACHMENT''"
| "AWSType_name IAM_ROLE = ''IAM_ROLE''"
| "AWSType_name IAM_POLICY = ''IAM_POLICY''"
| "AWSType_name IAM_INSTANCE_PROFILE = ''IAM_INSTANCE_PROFILE''"
| "AWSType_name ROUTE53_RECORDSET = ''ROUTE53_RECORDSET''"
| "AWSType_name S3_BUCKET = ''S3_BUCKET''"

fun AWSType_value :: "AWSType \<Rightarrow> string" where
  "AWSType_value EC2_INSTANCE = ''AWS::EC2::Instance''"
| "AWSType_value EC2_INTERNET_GATEWAY = ''AWS::EC2::InternetGateway''"
| "AWSType_value EC2_ROUTE = ''AWS::EC2::Route''"
| "AWSType_value EC2_ROUTE_TABLE = ''AWS::EC2::RouteTable''"
| "AWSType_value EC2_SECURITY_GROUP = ''AWS::EC2::SecurityGroup''"
| "AWSType_value EC2_SUBNET = ''AWS::EC2::Subnet''"
| "AWSType_value EC2_SUBNET_ROUTE_TABLE_ASSOCIATION = ''AWS::EC2::SubnetRouteTableAssociation''"
| "AWSType_value EC2_VOLUME = ''AWS::EC2::Volume''"
| "AWSType_value EC2_VPC = ''AWS::EC2::VPC''"
| "AWSType_value EC2_VPC_GATEWAY_ATTACHMENT = ''AWS::EC2::VPCGatewayAttachment''"
| "AWSType_value IAM_ROLE = ''AWS::IAM::Role''"
| "AWSType_value IAM_POLICY = ''AWS::IAM::Policy''"
| "AWSType_value IAM_INSTANCE_PROFILE = ''AWS::IAM::InstanceProfile''"
| "AWSType_value ROUTE53_RECORDSET = ''AWS::Route53::RecordSet''"
| "AWSType_value S3_BUCKET = ''AWS::S3::Bucket''"

text \<open>
  The expression \<open>AWSType.NAME\<close>: the member of that name, \<open>AttributeError\<close> when the
  class has none.
\<close>

definition AWSType_getattr :: "string \<Rightarrow> error + AWSType" where
  "AWSType_getattr n =
     (case find (\<lambda>k. AWSType_name k = n) AWSType_members of
        None \<Rightarrow> Inl (AttributeError n)
      | Some k \<Rightarrow> Inr k)"

subsection \<open>Intrinsic functions\<close>

datatype GetAtt = GetAtt string string

datatype Ref = Ref string

datatype Base64 = Base64 string

text \<open>
  The values a template is made of: what \<open>properties\<close> and \<open>export\<close> return and the
  serializer receives.
\<close>

datatype pyval =
    VNone
  | VBool bool
  | VInt int
  | VStr string
  | VRef Ref
  | VGetAtt GetAtt
  | VBase64 Base64
  | VList "pyval list"
  | VDict "(string \<times> pyval) list"

subsection \<open>Resources\<close>

text \<open>
  The classes of resources: \<open>Resource\<close> and its subclasses in \<open>e3.aws.cfn.ec2\<close> and
  \<open>e3.aws.cfn.codecommit\<close>; \<open>C_Other\<close> is a class defined elsewhere (a security group,
  an instance profile), given by its name.
\<close>

datatype resource_class =
    C_Resource
  | C_Instance
  | C_VPC
  | C_Subnet
  | C_InternetGateway
  | C_VPCGatewayAttachment
  | C_RouteTable
  | C_Route
  | C_SubnetRouteTableAssociation
  | C_Repository
  | C_Other string

text \<open>
  A resource that another object holds (the VPC of a subnet, the subnet of a network
  interface) is read through \<open>isinstance\<close>, \<open>.ref\<close> and \<open>.name\<close> only: the model keeps
  its class and its name.
\<close>

record obj =
  obj_class :: resource_class
  obj_name :: string

definition obj_ref :: "obj \<Rightarrow> Ref" where
  "obj_ref x = Ref (obj_name x)"

text \<open>
  \<open>e3.aws.ec2.ami.AMI\<close> is not among the sources; an instance reads the attributes
  \<open>id\<close> and \<open>root_device\<close> of its image.
\<close>

record AMI =
  ami_id :: string
  root_device :: string

datatype image_arg = IsAMI AMI | NotAMI

datatype BlockDevice =
    EphemeralDisk string int
  | EBSDisk string int

record NetworkInterface =
  subnet :: obj
  public_ip :: bool
  groups :: "obj list option"
  device_index :: "int option"
  description :: "string option"

text \<open>What \<open>Instance.add\<close> can receive: a network interface, a block device, anything else
  (given by its \<open>str\<close>).\<close>

datatype device =
    DevNetworkInterface NetworkInterface
  | DevBlockDevice BlockDevice
  | DevOther string

record Instance_fields =
  image :: AMI
  instance_type :: string
  block_devices :: "BlockDevice list"
  instance_profile :: "obj option"
  network_interfaces :: "(int, NetworkInterface) dict"

text \<open>The attributes a subclass adds to those of \<open>Resource\<close>; the constructor is the class.\<close>

datatype payload =
    P_Resource
  | P_Instance Instance_fields
  | P_VPC string
  | P_Subnet string obj
  | P_InternetGateway
  | P_VPCGatewayAttachment obj obj
  | P_RouteTable obj "(string, pyval) dict option"
  | P_Route obj string obj obj
  | P_SubnetRouteTableAssociation obj obj
  | P_Repository string string

record resource =
  name :: string
  kind :: AWSType
  depends :: "string option"
  payload :: payload

fun payload_class :: "payload \<Rightarrow> resource_class" where
  "payload_class P_Resource = C_Resource"
| "payload_class (P_Instance f) = C_Instance"
| "payload_class (P_VPC c) = C_VPC"
| "payload_class (P_Subnet c v) = C_Subnet"
| "payload_class P_InternetGateway = C_InternetGateway"
| "payload_class (P_VPCGatewayAttachment v g) = C_VPCGatewayAttachment"
| "payload_class (P_RouteTable v t) = C_RouteTable"
| "payload_class (P_Route t c g a) = C_Route"
| "payload_class (P_SubnetRouteTableAssociation s t) = C_SubnetRouteTableAssociation"
| "payload_class (P_Repository n d) = C_Repository"

definition class_of :: "resource \<Rightarrow> resource_class" where
  "class_of r = payload_class (payload r)"

definition as_obj :: "resource \<Rightarrow> obj" where
  "as_obj r = \<lparr>obj_class = class_of r, obj_name = resource.name r\<rparr>"

text \<open>The class variable \<open>ATTRIBUTES\<close>: the empty tuple unless the subclass overrides it.\<close>

fun ATTRIBUTES :: "resource_class \<Rightarrow> string list" where
  "ATTRIBUTES C_Instance =
     [''AvailabilityZone'', ''PrivateDnsName'', ''PublicDnsName'', ''PrivateIp'', ''PublicIp'']"
| "ATTRIBUTES C_VPC =
     [''CidrBlock'', ''CidrBlockAssociations'', ''DefaultNetworkAcl'', ''DefaultSecurityGroup'',
      ''Ipv6CidrBlocks'']"
| "ATTRIBUTES C_Repository = [''Arn'', ''CloneUrlHttp'', ''CloneUrlSsh'', ''Name'']"
| "ATTRIBUTES c = []"

text \<open>The \<open>kind\<close> argument of \<open>Resource.__init__\<close>: an \<open>AWSType\<close>, or anything else (given by
  its \<open>str\<close>).\<close>

datatype kind_arg = IsAWSType AWSType | NotAWSType string

definition Resource_init :: "string \<Rightarrow> kind_arg \<Rightarrow> error + resource" where
  "Resource_init n k =
     (case k of
        NotAWSType s \<Rightarrow> Inl (AssertionError (''resource kind should be an AWSType: found '' @ s))
      | IsAWSType t \<Rightarrow>
          if \<not> str_isalnum n
          then Inl (AssertionError (''resource name should be alphanumeric: found '' @ n))
          else Inr \<lparr>resource.name = n, kind = t, depends = None, payload = P_Resource\<rparr>)"

definition Resource_getatt :: "resource \<Rightarrow> string \<Rightarrow> error + GetAtt" where
  "Resource_getatt self n =
     (if n \<notin> set (ATTRIBUTES (class_of self))
      then Inl (AssertionError (''invalid attribute '' @ n))
      else Inr (GetAtt (resource.name self) n))"

definition Resource_ref :: "resource \<Rightarrow> Ref" where
  "Resource_ref self = Ref (resource.name self)"

subsection \<open>Properties\<close>

fun BlockDevice_properties :: "BlockDevice \<Rightarrow> (string, pyval) dict" where
  "BlockDevice_properties (EphemeralDisk device_name disk_id) =
     [(''DeviceName'', VStr device_name),
      (''VirtualName'', VStr (''ephemeral'' @ str_of_int disk_id))]"
| "BlockDevice_properties (EBSDisk device_name disk_size) =
     [(''DeviceName'', VStr device_name),
      (''Ebs'', VDict [(''VolumeSize'', VStr (str_of_int disk_size)),
                       (''VolumeType'', VStr ''standard'')])]"

definition NetworkInterface_properties :: "NetworkInterface \<Rightarrow> (string, pyval) dict" where
  "NetworkInterface_properties self =
     (let result = [(''AssociatePublicIpAddress'', VBool (public_ip self)),
                    (''SubnetId'', VRef (obj_ref (subnet self))),
                    (''DeleteOnTermination'', VBool True)];
          result = (case device_index self of
                      None \<Rightarrow> result
                    | Some i \<Rightarrow> dict_set result ''DeviceIndex'' (VInt i));
          result = (case groups self of
                      None \<Rightarrow> result
                    | Some gs \<Rightarrow>
                        if gs = [] then result
                        else dict_set result ''GroupSet'' (VList (map (\<lambda>g. VRef (obj_ref g)) gs)));
          result = (case NetworkInterface.description self of
                      None \<Rightarrow> result
                    | Some d \<Rightarrow> dict_set result ''Description'' (VStr d))
      in result)"

definition Instance_properties :: "Instance_fields \<Rightarrow> (string, pyval) dict" where
  "Instance_properties f =
     (let result = [(''ImageId'', VStr (ami_id (image f))),
                    (''InstanceType'', VStr (instance_type f)),
                    (''BlockDeviceMappings'',
                       VList (map (\<lambda>bd. VDict (BlockDevice_properties bd)) (block_devices f)))];
          result = (case instance_profile f of
                      None \<Rightarrow> result
                    | Some p \<Rightarrow> dict_set result ''IamInstanceProfile'' (VRef (obj_ref p)));
          result = (if network_interfaces f = [] then result
                    else dict_set result ''NetworkInterfaces''
                           (VList (map (\<lambda>ni. VDict (NetworkInterface_properties ni))
                                     (dict_values (network_interfaces f)))))
      in result)"

text \<open>The property \<open>properties\<close>, by the class of the resource; \<open>Resource\<close> and
  \<open>InternetGateway\<close> have the empty dictionary of the base class.\<close>

fun payload_properties :: "payload \<Rightarrow> (string, pyval) dict" where
  "payload_properties P_Resource = []"
| "payload_properties (P_Instance f) = Instance_properties f"
| "payload_properties (P_VPC cidr_block) = [(''CidrBlock'', VStr cidr_block)]"
| "payload_properties (P_Subnet cidr_block vpc) =
     [(''CidrBlock'', VStr cidr_block), (''VpcId'', VRef (obj_ref vpc))]"
| "payload_properties P_InternetGateway = []"
| "payload_properties (P_VPCGatewayAttachment vpc gateway) =
     [(''VpcId'', VRef (obj_ref vpc)), (''InternetGatewayId'', VRef (obj_ref gateway))]"
| "payload_properties (P_RouteTable vpc tags) =
     (let result = [(''VpcId'', VRef (obj_ref vpc))]
      in case tags of None \<Rightarrow> result | Some t \<Rightarrow> dict_set result ''Tags'' (VDict t))"
| "payload_properties (P_Route route_table dest_cidr_block gateway gateway_attach) =
     [(''RouteTableId'', VRef (obj_ref route_table)),
      (''DestinationCidrBlock'', VStr dest_cidr_block),
      (''GatewayId'', VRef (obj_ref gateway))]"
| "payload_properties (P_SubnetRouteTableAssociation subnet' route_table) =
     [(''SubnetId'', VRef (obj_ref subnet')), (''RouteTableId'', VRef (obj_ref route_table))]"
| "payload_properties (P_Repository repository_name description') =
     [(''RepositoryName'', VStr repository_name),
      (''RepositoryDescription'', VStr description')]"

definition properties :: "resource \<Rightarrow> (string, pyval) dict" where
  "properties self = payload_properties (payload self)"

definition Resource_export :: "resource \<Rightarrow> (string, pyval) dict" where
  "Resource_export self =
     (let result = [(''Type'', VStr (AWSType_value (kind self))),
                    (''Properties'', VDict (properties self))]
      in case depends self of
           None \<Rightarrow> result
         | Some d \<Rightarrow> dict_set result ''DependsOn'' (VStr d))"

subsection \<open>Stacks\<close>

record Stack =
  resources :: "(string, resource) dict"
  name :: string
  description :: "string option"

text \<open>
  \<open>VALID_STACK_NAME\<close> is \<open>^[a-zA-Z][a-zA-Z0-9-]*$\<close>, matched from the start of the name;
  \<open>$\<close> matches at the end of the string and before a newline that ends it.
\<close>

definition re_alpha :: "char \<Rightarrow> bool" where
  "re_alpha c =
     (let n = (of_char c :: nat) in (97 \<le> n \<and> n \<le> 122) \<or> (65 \<le> n \<and> n \<le> 90))"

definition match_VALID_STACK_NAME :: "string \<Rightarrow> bool" where
  "match_VALID_STACK_NAME s =
     (case s of
        [] \<Rightarrow> False
      | c # cs \<Rightarrow>
          re_alpha c \<and>
          list_all (\<lambda>x. re_alnum x \<or> x = CHR ''-'')
            (if cs \<noteq> [] \<and> last cs = CHR 0x0A then butlast cs else cs))"

definition VALID_STACK_NAME_MAX_LEN :: nat where
  "VALID_STACK_NAME_MAX_LEN = 128"

definition Stack_init :: "string \<Rightarrow> string option \<Rightarrow> error + Stack" where
  "Stack_init n d =
     (if \<not> (match_VALID_STACK_NAME n \<and> length n \<le> VALID_STACK_NAME_MAX_LEN)
      then Inl (AssertionError (''invalid stack name: '' @ n))
      else Inr \<lparr>resources = [], Stack.name = n, Stack.description = d\<rparr>)"

text \<open>What \<open>Stack.add\<close> can receive: a resource, a stack, anything else (given by its
  \<open>str\<close>).\<close>

datatype element =
    EResource resource
  | EStack Stack
  | EOther string

text \<open>
  The loop of the merge branch, over the values of the merged stack's dictionary:
  \<open>element_name\<close> is the name of the merged stack, \<open>rs\<close> the current dictionary of the
  receiving stack. The loop stops at the first assertion that fails, with what it has
  written so far.
\<close>

fun merge_loop ::
  "string \<Rightarrow> (string, resource) dict \<Rightarrow> resource list \<Rightarrow> outcome \<times> (string, resource) dict" where
  "merge_loop element_name rs [] = (Returned, rs)"
| "merge_loop element_name rs (r # todo) =
     (if dict_contains rs element_name
      then (Raised (AssertionError (''resource already exist: '' @ resource.name r)), rs)
      else merge_loop element_name (dict_set rs (resource.name r) r) todo)"

definition Stack_add :: "Stack \<Rightarrow> element \<Rightarrow> outcome \<times> Stack" where
  "Stack_add self el =
     (case el of
        EOther s \<Rightarrow>
          (Raised (AssertionError (''a resource or a stack is expected. got '' @ s)), self)
      | EResource r \<Rightarrow>
          if dict_contains (resources self) (resource.name r)
          then (Raised (AssertionError (''resource already exist: '' @ resource.name r)), self)
          else (Returned,
                self\<lparr>resources := dict_set (resources self) (resource.name r) r\<rparr>)
      | EStack st \<Rightarrow>
          (case merge_loop (Stack.name st) (resources self) (dict_values (resources st)) of
             (out, rs) \<Rightarrow> (out, self\<lparr>resources := rs\<rparr>)))"

definition Stack_getitem :: "Stack \<Rightarrow> string \<Rightarrow> error + resource" where
  "Stack_getitem self key =
     (case dict_get (resources self) key of
        None \<Rightarrow> Inl KeyError
      | Some r \<Rightarrow> Inr r)"

definition Stack_export :: "Stack \<Rightarrow> (string, pyval) dict" where
  "Stack_export self =
     (let result =
            [(''AWSTemplateFormatVersion'', VStr ''2010-09-09''),
             (''Resources'',
                VDict (fold (\<lambda>v acc. dict_set acc (resource.name v) (VDict (Resource_export v)))
                         (dict_values (resources self)) []))]
      in case Stack.description self of
           None \<Rightarrow> result
         | Some d \<Rightarrow> dict_set result ''Description'' (VStr d))"

subsection \<open>Serialization\<close>

text \<open>
  The nodes a YAML representer builds: a scalar with its tag and its text, a sequence, a
  mapping.
\<close>

datatype node =
    ScalarNode string string
  | SequenceNode string "node list"
  | MappingNode string "(node \<times> node) list"

definition represent_scalar :: "string \<Rightarrow> string \<Rightarrow> node" where
  "represent_scalar tag text = ScalarNode tag text"

fun getatt_representer :: "GetAtt \<Rightarrow> node" where
  "getatt_representer (GetAtt n attribute) = represent_scalar ''!GetAtt'' (n @ ''.'' @ attribute)"

fun ref_representer :: "Ref \<Rightarrow> node" where
  "ref_representer (Ref n) = represent_scalar ''!Ref'' n"

fun base64_representer :: "Base64 \<Rightarrow> node" where
  "base64_representer (Base64 content) = represent_scalar ''!Base64'' content"

text \<open>
  The dumper's dispatch on the type of the value: the three representers that
  \<open>yaml.add_representer\<close> registers for \<open>GetAtt\<close>, \<open>Ref\<close> and \<open>Base64\<close>, and for the
  other values the representers of the YAML library, which is not among the sources
  (a mapping is represented with its keys sorted).
\<close>

fun represent_data :: "pyval \<Rightarrow> node" where
  "represent_data (VGetAtt g) = getatt_representer g"
| "represent_data (VRef r) = ref_representer r"
| "represent_data (VBase64 b) = base64_representer b"
| "represent_data VNone = represent_scalar ''tag:yaml.org,2002:null'' ''null''"
| "represent_data (VBool b) =
     represent_scalar ''tag:yaml.org,2002:bool'' (if b then ''true'' else ''false'')"
| "represent_data (VInt i) = represent_scalar ''tag:yaml.org,2002:int'' (str_of_int i)"
| "represent_data (VStr s) = represent_scalar ''tag:yaml.org,2002:str'' s"
| "represent_data (VList xs) = SequenceNode ''tag:yaml.org,2002:seq'' (map represent_data xs)"
| "represent_data (VDict kvs) =
     MappingNode ''tag:yaml.org,2002:map''
       (map (\<lambda>(k, n). (represent_scalar ''tag:yaml.org,2002:str'' k, n))
          (sort_key fst (map (\<lambda>(k, v). (k, represent_data v)) kvs)))"

text \<open>
  The property \<open>body\<close> is \<open>yaml.dump(self.export())\<close>: the text that the emitter of the
  YAML library writes for the nodes; the emitter is a parameter. The call reads the
  stack and writes nothing: it returns the text and the stack as it was.
\<close>

definition Stack_body :: "(node \<Rightarrow> string) \<Rightarrow> Stack \<Rightarrow> string \<times> Stack" where
  "Stack_body emit self = (emit (represent_data (VDict (Stack_export self))), self)"

section \<open>e3.aws.cfn.ec2\<close>

definition NetworkInterface_init ::
  "obj \<Rightarrow> bool \<Rightarrow> obj list option \<Rightarrow> int option \<Rightarrow> string option \<Rightarrow> error + NetworkInterface" where
  "NetworkInterface_init sn pub gs idx descr =
     (if obj_class sn \<noteq> C_Subnet then Inl (AssertionError [])
      else Inr \<lparr>subnet = sn, public_ip = pub, groups = gs, device_index = idx,
                NetworkInterface.description = descr\<rparr>)"

text \<open>
  \<open>Instance.add\<close>. A network interface without a device index gets one more than the
  greatest key of \<open>network_interfaces\<close> (and than 0), written into the interface itself;
  one with an index is asserted not to be a key. The method belongs to \<open>Instance\<close>:
  another resource has no attribute \<open>add\<close>.
\<close>

definition Instance_add :: "resource \<Rightarrow> device \<Rightarrow> outcome \<times> resource" where
  "Instance_add self dev =
     (case payload self of
        P_Instance f \<Rightarrow>
          (case dev of
             DevNetworkInterface ni \<Rightarrow>
               (case device_index ni of
                  None \<Rightarrow>
                    (case py_max (dict_keys (network_interfaces f) @ [0]) of
                       Inl e \<Rightarrow> (Raised e, self)
                     | Inr m \<Rightarrow>
                         (let index = m + 1 in
                            (Returned,
                             self\<lparr>payload := P_Instance
                               (f\<lparr>network_interfaces :=
                                    dict_set (network_interfaces f) index
                                      (ni\<lparr>device_index := Some index\<rparr>)\<rparr>)\<rparr>)))
                | Some index \<Rightarrow>
                    if dict_contains (network_interfaces f) index
                    then (Raised (AssertionError []), self)
                    else (Returned,
                          self\<lparr>payload := P_Instance
                            (f\<lparr>network_interfaces :=
                                 dict_set (network_interfaces f) index ni\<rparr>)\<rparr>))
           | DevBlockDevice bd \<Rightarrow>
               (Returned,
                self\<lparr>payload := P_Instance (f\<lparr>block_devices := block_devices f @ [bd]\<rparr>)\<rparr>)
           | DevOther s \<Rightarrow> (Raised (AssertionError (''invalid device '' @ s)), self))
      | _ \<Rightarrow> (Raised (AttributeError ''add''), self))"

text \<open>
  \<open>Instance.__init__\<close>: the block-device list is empty when the root disk is added, and
  the instance profile and the interface dictionary are set after it.
\<close>

definition set_tail_fields :: "resource \<Rightarrow> resource" where
  "set_tail_fields self =
     (case payload self of
        P_Instance f \<Rightarrow>
          self\<lparr>payload := P_Instance (f\<lparr>instance_profile := None, network_interfaces := []\<rparr>)\<rparr>
      | _ \<Rightarrow> self)"

definition Instance_init ::
  "string \<Rightarrow> image_arg \<Rightarrow> string \<Rightarrow> int option \<Rightarrow> error + resource" where
  "Instance_init n img ty disk_size =
     (case Resource_init n (IsAWSType EC2_INSTANCE) of
        Inl e \<Rightarrow> Inl e
      | Inr self \<Rightarrow>
          (case img of
             NotAMI \<Rightarrow> Inl (AssertionError [])
           | IsAMI a \<Rightarrow>
               (let self = self\<lparr>payload := P_Instance
                             \<lparr>image = a, instance_type = ty, block_devices = [],
                              instance_profile = None, network_interfaces = []\<rparr>\<rparr>
                in case disk_size of
                     None \<Rightarrow> Inr (set_tail_fields self)
                   | Some sz \<Rightarrow>
                       (case Instance_add self (DevBlockDevice (EBSDisk (root_device a) sz)) of
                          (Raised e, self') \<Rightarrow> Inl e
                        | (Returned, self') \<Rightarrow> Inr (set_tail_fields self')))))"

definition Instance_public_ip :: "resource \<Rightarrow> GetAtt" where
  "Instance_public_ip self = GetAtt (resource.name self) ''PublicIp''"

definition set_instance_profile :: "resource \<Rightarrow> obj \<Rightarrow> resource" where
  "set_instance_profile self profile =
     (case payload self of
        P_Instance f \<Rightarrow> self\<lparr>payload := P_Instance (f\<lparr>instance_profile := Some profile\<rparr>)\<rparr>
      | _ \<Rightarrow> self)"

definition VPC_init :: "string \<Rightarrow> string \<Rightarrow> error + resource" where
  "VPC_init n cidr_block =
     (case Resource_init n (IsAWSType EC2_VPC) of
        Inl e \<Rightarrow> Inl e
      | Inr self \<Rightarrow> Inr (self\<lparr>payload := P_VPC cidr_block\<rparr>))"

definition VPC_cidrblock :: "resource \<Rightarrow> error + GetAtt" where
  "VPC_cidrblock self = Resource_getatt self ''CidrBlock''"

definition Subnet_init :: "string \<Rightarrow> obj \<Rightarrow> string \<Rightarrow> error + resource" where
  "Subnet_init n vpc cidr_block =
     (case Resource_init n (IsAWSType EC2_SUBNET) of
        Inl e \<Rightarrow> Inl e
      | Inr self \<Rightarrow>
          if obj_class vpc \<noteq> C_VPC then Inl (AssertionError [])
          else Inr (self\<lparr>payload := P_Subnet cidr_block vpc\<rparr>))"

definition InternetGateway_init :: "string \<Rightarrow> error + resource" where
  "InternetGateway_init n =
     (case Resource_init n (IsAWSType EC2_INTERNET_GATEWAY) of
        Inl e \<Rightarrow> Inl e
      | Inr self \<Rightarrow> Inr (self\<lparr>payload := P_InternetGateway\<rparr>))"

definition VPCGatewayAttachment_init :: "string \<Rightarrow> obj \<Rightarrow> obj \<Rightarrow> error + resource" where
  "VPCGatewayAttachment_init n vpc gateway =
     (case Resource_init n (IsAWSType EC2_VPC_GATEWAY_ATTACHMENT) of
        Inl e \<Rightarrow> Inl e
      | Inr self \<Rightarrow>
          if obj_class vpc \<noteq> C_VPC then Inl (AssertionError [])
          else if obj_class gateway \<noteq> C_InternetGateway then Inl (AssertionError [])
          else Inr (self\<lparr>payload := P_VPCGatewayAttachment vpc gateway\<rparr>))"

definition RouteTable_init ::
  "string \<Rightarrow> obj \<Rightarrow> (string, pyval) dict option \<Rightarrow> error + resource" where
  "RouteTable_init n vpc tags =
     (case Resource_init n (IsAWSType EC2_ROUTE_TABLE) of
        Inl e \<Rightarrow> Inl e
      | Inr self \<Rightarrow>
          if obj_class vpc \<noteq> C_VPC then Inl (AssertionError [])
          else Inr (self\<lparr>payload := P_RouteTable vpc tags\<rparr>))"

definition Route_init :: "string \<Rightarrow> obj \<Rightarrow> string \<Rightarrow> obj \<Rightarrow> obj \<Rightarrow> error + resource" where
  "Route_init n route_table dest_cidr_block gateway gateway_attach =
     (case Resource_init n (IsAWSType EC2_ROUTE) of
        Inl e \<Rightarrow> Inl e
      | Inr self \<Rightarrow>
          if obj_class route_table \<noteq> C_RouteTable then Inl (AssertionError [])
          else if obj_class gateway \<noteq> C_InternetGateway then Inl (AssertionError [])
          else Inr (self\<lparr>payload := P_Route route_table dest_cidr_block gateway gateway_attach,
                         depends := Some (obj_name gateway_attach)\<rparr>))"

definition SubnetRouteTableAssociation_init :: "string \<Rightarrow> obj \<Rightarrow> obj \<Rightarrow> error + resource" where
  "SubnetRouteTableAssociation_init n sn route_table =
     (case Resource_init n (IsAWSType EC2_SUBNET_ROUTE_TABLE_ASSOCIATION) of
        Inl e \<Rightarrow> Inl e
      | Inr self \<Rightarrow> Inr (self\<lparr>payload := P_SubnetRouteTableAssociation sn route_table\<rparr>))"

section \<open>e3.aws.cfn.codecommit\<close>

text \<open>
  \<open>Repository.__init__\<close>: \<open>re.sub\<close> deletes every run of characters outside
  \<open>[a-zA-Z0-9]\<close>; then the arguments of the call of \<open>Resource.__init__\<close> are evaluated,
  the second of which is \<open>AWSType.CODE_COMMIT_REPOSITORY\<close>.
\<close>

definition Repository_init :: "string \<Rightarrow> string \<Rightarrow> error + resource" where
  "Repository_init n descr =
     (let resource_name = filter re_alnum n in
        case AWSType_getattr ''CODE_COMMIT_REPOSITORY'' of
          Inl e \<Rightarrow> Inl e
        | Inr k \<Rightarrow>
            (case Resource_init resource_name (IsAWSType k) of
               Inl e \<Rightarrow> Inl e
             | Inr self \<Rightarrow>
                 Inr (self\<lparr>resource.name := resource_name,
                           payload := P_Repository n descr\<rparr>)))"

section \<open>Adding the resources of a stack one by one\<close>

text \<open>
  The specification compares a merge with calling \<open>add\<close> for each resource of the merged
  stack, in its insertion order; the calls stop at the first one that raises.
\<close>

fun add_each :: "Stack \<Rightarrow> resource list \<Rightarrow> outcome \<times> Stack" where
  "add_each self [] = (Returned, self)"
| "add_each self (r # rs) =
     (case Stack_add self (EResource r) of
        (Raised e, self') \<Rightarrow> (Raised e, self')
      | (Returned, self') \<Rightarrow> add_each self' rs)"

section \<open>Example objects\<close>

text \<open>The stack that \<open>Stack(n)\<close> returns.\<close>

definition empty_stack :: "string \<Rightarrow> Stack" where
  "empty_stack n = \<lparr>resources = [], Stack.name = n, Stack.description = None\<rparr>"

text \<open>Two VPCs of the same name, and the stacks \<open>a\<close> and \<open>b\<close> that hold one each.\<close>

definition net_a :: resource where
  "net_a = \<lparr>resource.name = ''Net'', kind = EC2_VPC, depends = None,
            payload = P_VPC ''10.0.0.0/16''\<rparr>"

definition net_b :: resource where
  "net_b = \<lparr>resource.name = ''Net'', kind = EC2_VPC, depends = None,
            payload = P_VPC ''10.1.0.0/16''\<rparr>"

definition stack_a :: Stack where
  "stack_a = \<lparr>resources = [(''Net'', net_a)], Stack.name = ''a'', Stack.description = None\<rparr>"

definition stack_b :: Stack where
  "stack_b = \<lparr>resources = [(''Net'', net_b)], Stack.name = ''b'', Stack.description = None\<rparr>"

text \<open>The internet gateway that \<open>InternetGateway(n)\<close> returns.\<close>

definition gateway :: "string \<Rightarrow> resource" where
  "gateway n = \<lparr>resource.name = n, kind = EC2_INTERNET_GATEWAY, depends = None,
                payload = P_InternetGateway\<rparr>"

text \<open>
  A stack \<open>c\<close> with a resource named \<open>b\<close>; a stack named \<open>b\<close> with a resource
  \<open>Other\<close>; a stack named \<open>X\<close> with the resources \<open>X\<close> and \<open>Y\<close>.
\<close>

definition stack_c :: Stack where
  "stack_c = \<lparr>resources = [(''b'', gateway ''b'')], Stack.name = ''c'',
              Stack.description = None\<rparr>"

definition stack_d :: Stack where
  "stack_d = \<lparr>resources = [(''Other'', gateway ''Other'')], Stack.name = ''b'',
              Stack.description = None\<rparr>"

definition stack_x :: Stack where
  "stack_x = \<lparr>resources = [(''X'', gateway ''X''), (''Y'', gateway ''Y'')], Stack.name = ''X'',
              Stack.description = None\<rparr>"

text \<open>
  An image, a subnet as an instance's interface holds it, the interface that
  \<open>NetworkInterface(sub, device_index=i)\<close> returns, and the instance \<open>Web\<close> with given
  block devices and interfaces.
\<close>

definition ami :: AMI where
  "ami = \<lparr>ami_id = ''ami-1234'', root_device = ''/dev/sda1''\<rparr>"

definition sub :: obj where
  "sub = \<lparr>obj_class = C_Subnet, obj_name = ''Sub''\<rparr>"

definition eth :: "int option \<Rightarrow> NetworkInterface" where
  "eth i = \<lparr>subnet = sub, public_ip = False, groups = None, device_index = i,
            NetworkInterface.description = None\<rparr>"

definition web :: "BlockDevice list \<Rightarrow> (int, NetworkInterface) dict \<Rightarrow> resource" where
  "web bds nis =
     \<lparr>resource.name = ''Web'', kind = EC2_INSTANCE, depends = None,
      payload = P_Instance \<lparr>image = ami, instance_type = ''t2.micro'', block_devices = bds,
                             instance_profile = None, network_interfaces = nis\<rparr>\<rparr>"

text \<open>
  The route that \<open>Route('Out', table, '0.0.0.0/0', gate, attach)\<close> returns: it depends on
  the gateway attachment \<open>Attach\<close>.
\<close>

definition route_r :: resource where
  "route_r = \<lparr>resource.name = ''Out'', kind = EC2_ROUTE, depends = Some ''Attach'',
     payload = P_Route \<lparr>obj_class = C_RouteTable, obj_name = ''Table''\<rparr> ''0.0.0.0/0''
                 \<lparr>obj_class = C_InternetGateway, obj_name = ''Gate''\<rparr>
                 \<lparr>obj_class = C_VPCGatewayAttachment, obj_name = ''Attach''\<rparr>\<rparr>"

text \<open>The stack \<open>a\<close> after \<open>Net\<close> and then the gateway \<open>Gate\<close> were added.\<close>

definition stack_ng :: Stack where
  "stack_ng = \<lparr>resources = [(''Net'', net_a), (''Gate'', gateway ''Gate'')], Stack.name = ''a'',
               Stack.description = None\<rparr>"

section \<open>Auxiliary facts\<close>

lemmas ex_defs = empty_stack_def net_a_def net_b_def stack_a_def stack_b_def gateway_def
  stack_c_def stack_d_def stack_x_def

lemmas init_defs = Resource_init_def str_isalnum_def char_isalnum_def Stack_init_def
  match_VALID_STACK_NAME_def re_alpha_def re_alnum_def VALID_STACK_NAME_MAX_LEN_def

lemmas stack_defs = Stack_add_def dict_values_def dict_contains_def dict_set_def dict_get_def
  Stack_getitem_def

lemma dict_get_dict_set:
  "dict_get (dict_set d k v) k' = (if k' = k then Some v else dict_get d k')"
  by (simp add: dict_get_def dict_set_def update_conv')

lemma dict_set_new:
  "\<not> dict_contains d k \<Longrightarrow> dict_set d k v = d @ [(k, v)]"
  by (induction d) (auto simp: dict_contains_def dict_set_def)

text \<open>A merge leaves alone every name that no resource of the merged stack has.\<close>

lemma merge_loop_outside:
  "merge_loop en d rs = (out, d') \<Longrightarrow> n \<notin> set (map resource.name rs) \<Longrightarrow>
   dict_get d' n = dict_get d n"
proof (induction rs arbitrary: d)
  case Nil
  then show ?case by simp
next
  case (Cons r rs)
  show ?case
  proof (cases "dict_contains d en")
    case True
    with Cons.prems show ?thesis by simp
  next
    case False
    with Cons.prems have "merge_loop en (dict_set d (resource.name r) r) rs = (out, d')"
      by simp
    moreover from Cons.prems have "n \<notin> set (map resource.name rs)" and "n \<noteq> resource.name r"
      by auto
    ultimately show ?thesis
      using Cons.IH by (simp add: dict_get_dict_set)
  qed
qed

text \<open>A merge that raises has written the resources before the one it stopped at.\<close>

lemma merge_loop_raised:
  "merge_loop en d rs = (Raised e, d') \<Longrightarrow>
   \<exists>k < length rs.
     d' = fold (\<lambda>r acc. dict_set acc (resource.name r) r) (take k rs) d \<and>
     dict_contains d' en \<and>
     e = AssertionError (''resource already exist: '' @ resource.name (rs ! k))"
proof (induction rs arbitrary: d)
  case Nil
  then show ?case by simp
next
  case (Cons r rs)
  show ?case
  proof (cases "dict_contains d en")
    case True
    with Cons.prems have "d' = d"
      and "e = AssertionError (''resource already exist: '' @ resource.name r)"
      by simp_all
    with True show ?thesis by (intro exI[of _ 0]) simp
  next
    case False
    with Cons.prems have "merge_loop en (dict_set d (resource.name r) r) rs = (Raised e, d')"
      by simp
    from Cons.IH[OF this] obtain k where "k < length rs"
      and "d' = fold (\<lambda>r acc. dict_set acc (resource.name r) r) (take k rs)
                  (dict_set d (resource.name r) r)"
      and "dict_contains d' en"
      and "e = AssertionError (''resource already exist: '' @ resource.name (rs ! k))"
      by blast
    then show ?thesis by (intro exI[of _ "Suc k"]) simp
  qed
qed

lemmas ec2_defs = ami_def sub_def eth_def web_def

text \<open>\<open>max(keys + [0])\<close> is the greatest of the keys and 0.\<close>

lemma py_max_Max: "py_max (xs @ [0]) = Inr (Max (set xs \<union> {0}))"
proof -
  have f: "(\<lambda>item max_item. if item > max_item then item else max_item) =
           (max :: int \<Rightarrow> int \<Rightarrow> int)"
    by (intro ext) (simp add: max_def)
  show ?thesis
  proof (cases xs)
    case Nil
    then show ?thesis by simp
  next
    case (Cons y ys)
    have "py_max (xs @ [0]) = Inr (fold max (ys @ [0]) y)"
      using Cons by (simp add: f)
    also have "fold max (ys @ [0]) y = Max (set (y # (ys @ [0])))"
      by (simp only: Max.set_eq_fold)
    also have "set (y # (ys @ [0])) = set xs \<union> {0}"
      using Cons by auto
    finally show ?thesis .
  qed
qed

text \<open>A new instance has no network interface and no instance profile.\<close>

lemma Instance_init_fresh:
  "Instance_init n img ty sz = Inr inst \<Longrightarrow>
   \<exists>f. payload inst = P_Instance f \<and> network_interfaces f = [] \<and> instance_profile f = None"
  by (auto simp: Instance_init_def Instance_add_def set_tail_fields_def Resource_init_def Let_def
      split: sum.splits image_arg.splits option.splits if_splits)

text \<open>An ASCII letter or digit is alphanumeric; an ASCII character is alphanumeric only
  if it is a letter or a digit.\<close>

lemma re_alnum_isalnum: "re_alnum c \<Longrightarrow> char_isalnum c"
  by (auto simp: re_alnum_def char_isalnum_def Let_def)

lemma ascii_isalnum: "(of_char c :: nat) < 128 \<Longrightarrow> char_isalnum c = re_alnum c"
  by (auto simp: re_alnum_def char_isalnum_def Let_def)

text \<open>Writing values under keys that are new and distinct appends them in their order.\<close>

lemma fold_dict_set_fresh:
  "distinct (map fst acc @ map g vs) \<Longrightarrow>
   fold (\<lambda>v acc. dict_set acc (g v) (f v)) vs acc = acc @ map (\<lambda>v. (g v, f v)) vs"
proof (induction vs arbitrary: acc)
  case Nil
  then show ?case by simp
next
  case (Cons v vs)
  from Cons.prems have new: "\<not> dict_contains acc (g v)"
    by (auto simp: dict_contains_def)
  from Cons.prems have "distinct (map fst (acc @ [(g v, f v)]) @ map g vs)"
    by auto
  from Cons.IH[OF this] show ?case
    by (simp add: dict_set_new[OF new])
qed

lemma Stack_export_Resources:
  "dict_get (Stack_export S) ''Resources'' =
     Some (VDict (fold (\<lambda>v acc. dict_set acc (resource.name v) (VDict (Resource_export v)))
                    (dict_values (resources S)) []))"
  by (cases "Stack.description S") (simp_all add: Stack_export_def dict_get_def dict_set_def)

text \<open>
  Adding resources one by one, when every call returns, appends them to the mapping
  under their names, which are then distinct and new.
\<close>

lemma add_each_returned:
  "add_each S rs = (Returned, S') \<Longrightarrow>
   S' = S\<lparr>resources := resources S @ map (\<lambda>r. (resource.name r, r)) rs\<rparr> \<and>
   distinct (map fst (resources S) @ map resource.name rs) = distinct (map fst (resources S))"
proof (induction rs arbitrary: S)
  case Nil
  then show ?case by simp
next
  case (Cons r rs)
  from Cons.prems have new: "\<not> dict_contains (resources S) (resource.name r)"
    by (auto simp: Stack_add_def split: if_splits prod.splits outcome.splits)
  with Cons.prems have step:
    "add_each (S\<lparr>resources := resources S @ [(resource.name r, r)]\<rparr>) rs = (Returned, S')"
    by (simp add: Stack_add_def dict_set_new)
  from Cons.IH[OF step] new show ?case
    by (auto simp: dict_contains_def)
qed

section \<open>Stack.add\<close>

text \<open>
  C1. The claim: when a resource of stack B has the name of a resource already in stack
  A, \<open>A.add(B)\<close> fails and does not overwrite. The merge branch asserts that the name of
  the stack B, not the name of the resource, is absent from A. Evaluated here: stack
  \<open>a\<close> holds the VPC \<open>Net\<close> (10.0.0.0/16), stack \<open>b\<close> holds another VPC \<open>Net\<close>
  (10.1.0.0/16), both built by the constructors and \<open>add\<close>; \<open>a.add(b)\<close> returns and
  \<open>a\<close> now holds the VPC of \<open>b\<close> under \<open>Net\<close>, where adding that VPC itself raises.
\<close>

theorem merge_overwrites_existing_name:
  "VPC_init ''Net'' ''10.0.0.0/16'' = Inr net_a \<and>
   VPC_init ''Net'' ''10.1.0.0/16'' = Inr net_b \<and>
   Stack_init ''a'' None = Inr (empty_stack ''a'') \<and>
   Stack_init ''b'' None = Inr (empty_stack ''b'') \<and>
   Stack_add (empty_stack ''a'') (EResource net_a) = (Returned, stack_a) \<and>
   Stack_add (empty_stack ''b'') (EResource net_b) = (Returned, stack_b) \<and>
   Stack_add stack_a (EStack stack_b) = (Returned, stack_a\<lparr>resources := [(''Net'', net_b)]\<rparr>) \<and>
   Stack_add stack_a (EResource net_b) =
     (Raised (AssertionError ''resource already exist: Net''), stack_a)"
  by (simp add: VPC_init_def init_defs ex_defs stack_defs)

text \<open>
  C2. The claim: \<open>A.add(B)\<close> gives the mapping, and fails exactly when, adding the
  resources of B one by one does. Evaluated here, both ways: merging \<open>b\<close> into \<open>a\<close>
  returns where adding the VPC of \<open>b\<close> raises; merging the stack named \<open>b\<close> into the
  stack \<open>c\<close>, which has a resource named \<open>b\<close>, raises where adding its one resource
  \<open>Other\<close> returns.
\<close>

theorem merge_differs_from_adding_each:
  "Stack_add stack_a (EStack stack_b) = (Returned, stack_a\<lparr>resources := [(''Net'', net_b)]\<rparr>) \<and>
   add_each stack_a (dict_values (resources stack_b)) =
     (Raised (AssertionError ''resource already exist: Net''), stack_a) \<and>
   Stack_add stack_c (EStack stack_d) =
     (Raised (AssertionError ''resource already exist: Other''), stack_c) \<and>
   add_each stack_c (dict_values (resources stack_d)) =
     (Returned, stack_c\<lparr>resources := [(''b'', gateway ''b''), (''Other'', gateway ''Other'')]\<rparr>)"
  by (simp add: ex_defs stack_defs)

text \<open>
  C3, as the claim states it: a failed \<open>add\<close> leaves the mapping as it was, also for a
  merge. It does not: merging the stack named \<open>X\<close>, with the resources \<open>X\<close> and \<open>Y\<close>,
  into an empty stack writes \<open>X\<close>, then raises at \<open>Y\<close>; the lookup of \<open>X\<close>, a
  \<open>KeyError\<close> before the call, returns the gateway after it.
\<close>

theorem failed_merge_keeps_written_resource:
  "Stack_add (empty_stack ''a'') (EStack stack_x) =
     (Raised (AssertionError ''resource already exist: Y''),
      (empty_stack ''a'')\<lparr>resources := [(''X'', gateway ''X'')]\<rparr>) \<and>
   Stack_getitem (empty_stack ''a'') ''X'' = Inl KeyError \<and>
   Stack_getitem (snd (Stack_add (empty_stack ''a'') (EStack stack_x))) ''X'' =
     Inr (gateway ''X'')"
  by (simp add: ex_defs stack_defs)

text \<open>
  C3, amended. When \<open>add\<close> of a resource, or of an element that is neither a resource nor
  a stack, raises, the stack is what it was. When a merge of stack B raises, the name
  and the description of the stack are what they were, its mapping is the former one
  with the resources of B before the one the loop stopped at written into it, in B's
  order, and every name that no resource of B has looks up as before the call.
\<close>

theorem failed_add_state:
  "(Stack_add S (EResource r) = (Raised e, S') \<longrightarrow> S' = S) \<and>
   (Stack_add S (EOther x) = (Raised e, S') \<longrightarrow> S' = S) \<and>
   (Stack_add S (EStack B) = (Raised e, S') \<longrightarrow>
      Stack.name S' = Stack.name S \<and> Stack.description S' = Stack.description S \<and>
      (\<exists>k < length (dict_values (resources B)).
         resources S' =
           fold (\<lambda>r acc. dict_set acc (resource.name r) r)
             (take k (dict_values (resources B))) (resources S)) \<and>
      (\<forall>n. n \<notin> set (map resource.name (dict_values (resources B))) \<longrightarrow>
         Stack_getitem S' n = Stack_getitem S n))"
proof (intro conjI impI)
  assume "Stack_add S (EResource r) = (Raised e, S')"
  then show "S' = S" by (simp add: Stack_add_def split: if_splits)
next
  assume "Stack_add S (EOther x) = (Raised e, S')"
  then show "S' = S" by (simp add: Stack_add_def)
next
  assume a: "Stack_add S (EStack B) = (Raised e, S')"
  then obtain rs
    where m: "merge_loop (Stack.name B) (resources S) (dict_values (resources B)) = (Raised e, rs)"
    and s: "S' = S\<lparr>resources := rs\<rparr>"
    by (auto simp: Stack_add_def split: prod.splits)
  from s show "Stack.name S' = Stack.name S" by simp
  from s show "Stack.description S' = Stack.description S" by simp
  from merge_loop_raised[OF m] s
  show "\<exists>k < length (dict_values (resources B)).
         resources S' =
           fold (\<lambda>r acc. dict_set acc (resource.name r) r)
             (take k (dict_values (resources B))) (resources S)"
    by auto
  show "\<forall>n. n \<notin> set (map resource.name (dict_values (resources B))) \<longrightarrow>
         Stack_getitem S' n = Stack_getitem S n"
    using merge_loop_outside[OF m] s by (simp add: Stack_getitem_def)
qed

text \<open>
  On the stack \<open>a\<close>, which holds \<open>Net\<close>: adding a second \<open>Net\<close>, and adding the
  number 3, raise and change nothing; merging the stack named \<open>X\<close> raises at \<open>Y\<close>
  with \<open>X\<close> written, and \<open>Net\<close>, a name of no resource of the merged stack, looks up
  as before.
\<close>

theorem failed_add_state_witness:
  "Stack_add stack_a (EResource net_b) =
     (Raised (AssertionError ''resource already exist: Net''), stack_a) \<and>
   Stack_add stack_a (EOther ''3'') =
     (Raised (AssertionError ''a resource or a stack is expected. got 3''), stack_a) \<and>
   Stack_add stack_a (EStack stack_x) =
     (Raised (AssertionError ''resource already exist: Y''),
      stack_a\<lparr>resources := [(''Net'', net_a), (''X'', gateway ''X'')]\<rparr>) \<and>
   ''Net'' \<notin> set (map resource.name (dict_values (resources stack_x))) \<and>
   Stack_getitem (stack_a\<lparr>resources := [(''Net'', net_a), (''X'', gateway ''X'')]\<rparr>) ''Net'' =
     Stack_getitem stack_a ''Net''"
  using failed_add_state[of stack_a net_b "AssertionError ''resource already exist: Net''" stack_a
      "''3''" stack_x]
  by (simp add: ex_defs stack_defs)

section \<open>Instance.add\<close>

text \<open>
  C4. On an instance (a resource whose attributes are those of \<open>Instance\<close>): attaching a
  network interface whose device index is unset returns, and stores the interface, its
  index set, under the greatest of the present indices and 0, plus 1; attaching one
  whose index is already a key raises the assertion (the specification's
  DuplicateDeviceIndexError) and leaves the instance as it was; attaching a block
  device appends it to the list of block devices. On an instance as the constructor
  returns it, attaching two interfaces without an index stores them under 1 and 2.
\<close>

theorem Instance_add_device:
  "(payload self = P_Instance f \<longrightarrow>
      (device_index ni = None \<longrightarrow>
         Instance_add self (DevNetworkInterface ni) =
           (Returned,
            self\<lparr>payload := P_Instance
              (f\<lparr>network_interfaces :=
                   dict_set (network_interfaces f)
                     (Max (set (dict_keys (network_interfaces f)) \<union> {0}) + 1)
                     (ni\<lparr>device_index :=
                           Some (Max (set (dict_keys (network_interfaces f)) \<union> {0}) + 1)\<rparr>)\<rparr>)\<rparr>)) \<and>
      (device_index ni = Some i \<and> dict_contains (network_interfaces f) i \<longrightarrow>
         Instance_add self (DevNetworkInterface ni) = (Raised (AssertionError []), self)) \<and>
      Instance_add self (DevBlockDevice bd) =
        (Returned, self\<lparr>payload := P_Instance (f\<lparr>block_devices := block_devices f @ [bd]\<rparr>)\<rparr>)) \<and>
   (Instance_init n img ty sz = Inr inst \<and> device_index ni1 = None \<and> device_index ni2 = None \<longrightarrow>
      (\<exists>inst1 inst2 f2.
         Instance_add inst (DevNetworkInterface ni1) = (Returned, inst1) \<and>
         Instance_add inst1 (DevNetworkInterface ni2) = (Returned, inst2) \<and>
         payload inst2 = P_Instance f2 \<and>
         network_interfaces f2 =
           [(1, ni1\<lparr>device_index := Some 1\<rparr>), (2, ni2\<lparr>device_index := Some 2\<rparr>)]))"
proof (intro conjI impI)
  assume "payload self = P_Instance f" and "device_index ni = None"
  then show "Instance_add self (DevNetworkInterface ni) =
           (Returned,
            self\<lparr>payload := P_Instance
              (f\<lparr>network_interfaces :=
                   dict_set (network_interfaces f)
                     (Max (set (dict_keys (network_interfaces f)) \<union> {0}) + 1)
                     (ni\<lparr>device_index :=
                           Some (Max (set (dict_keys (network_interfaces f)) \<union> {0}) + 1)\<rparr>)\<rparr>)\<rparr>)"
    by (simp add: Instance_add_def py_max_Max Let_def)
next
  assume "payload self = P_Instance f"
    and "device_index ni = Some i \<and> dict_contains (network_interfaces f) i"
  then show "Instance_add self (DevNetworkInterface ni) = (Raised (AssertionError []), self)"
    by (simp add: Instance_add_def)
next
  assume "payload self = P_Instance f"
  then show "Instance_add self (DevBlockDevice bd) =
        (Returned, self\<lparr>payload := P_Instance (f\<lparr>block_devices := block_devices f @ [bd]\<rparr>)\<rparr>)"
    by (simp add: Instance_add_def)
next
  assume a: "Instance_init n img ty sz = Inr inst \<and> device_index ni1 = None \<and>
             device_index ni2 = None"
  then obtain f where f: "payload inst = P_Instance f" "network_interfaces f = []"
    using Instance_init_fresh by blast
  have 1: "Instance_add inst (DevNetworkInterface ni1) =
             (Returned, inst\<lparr>payload := P_Instance
                (f\<lparr>network_interfaces := [(1, ni1\<lparr>device_index := Some 1\<rparr>)]\<rparr>)\<rparr>)"
    using a f by (simp add: Instance_add_def dict_keys_def dict_set_def Let_def)
  have 2: "Instance_add (inst\<lparr>payload := P_Instance
                (f\<lparr>network_interfaces := [(1, ni1\<lparr>device_index := Some 1\<rparr>)]\<rparr>)\<rparr>)
              (DevNetworkInterface ni2) =
             (Returned, inst\<lparr>payload := P_Instance
                (f\<lparr>network_interfaces := [(1, ni1\<lparr>device_index := Some 1\<rparr>),
                                            (2, ni2\<lparr>device_index := Some 2\<rparr>)]\<rparr>)\<rparr>)"
    using a by (simp add: Instance_add_def dict_keys_def dict_set_def Let_def)
  show "\<exists>inst1 inst2 f2.
         Instance_add inst (DevNetworkInterface ni1) = (Returned, inst1) \<and>
         Instance_add inst1 (DevNetworkInterface ni2) = (Returned, inst2) \<and>
         payload inst2 = P_Instance f2 \<and>
         network_interfaces f2 =
           [(1, ni1\<lparr>device_index := Some 1\<rparr>), (2, ni2\<lparr>device_index := Some 2\<rparr>)]"
    using 1 2 by simp
qed

text \<open>
  The instance \<open>Web\<close>, as the constructor returns it: two interfaces without an index
  get 1 and 2, a third with the index 1 raises and changes nothing, an ephemeral disk is
  appended.
\<close>

theorem Instance_add_device_witness:
  "Instance_init ''Web'' (IsAMI ami) ''t2.micro'' None = Inr (web [] []) \<and>
   NetworkInterface_init sub False None None None = Inr (eth None) \<and>
   Instance_add (web [] []) (DevNetworkInterface (eth None)) =
     (Returned, web [] [(1, eth (Some 1))]) \<and>
   Instance_add (web [] [(1, eth (Some 1))]) (DevNetworkInterface (eth None)) =
     (Returned, web [] [(1, eth (Some 1)), (2, eth (Some 2))]) \<and>
   Instance_add (web [] [(1, eth (Some 1)), (2, eth (Some 2))])
       (DevNetworkInterface (eth (Some 1))) =
     (Raised (AssertionError []), web [] [(1, eth (Some 1)), (2, eth (Some 2))]) \<and>
   Instance_add (web [] [(1, eth (Some 1)), (2, eth (Some 2))])
       (DevBlockDevice (EphemeralDisk ''/dev/sdb'' 0)) =
     (Returned, web [EphemeralDisk ''/dev/sdb'' 0] [(1, eth (Some 1)), (2, eth (Some 2))])"
  using Instance_add_device[of "web [] [(1, eth (Some 1)), (2, eth (Some 2))]"
      "\<lparr>image = ami, instance_type = ''t2.micro'', block_devices = [],
        instance_profile = None, network_interfaces = [(1, eth (Some 1)), (2, eth (Some 2))]\<rparr>"
      "eth (Some 1)" 1 "EphemeralDisk ''/dev/sdb'' 0"
      "''Web''" "IsAMI ami" "''t2.micro''" None "web [] []" "eth None" "eth None"]
    Instance_add_device[of "web [] []"
      "\<lparr>image = ami, instance_type = ''t2.micro'', block_devices = [],
        instance_profile = None, network_interfaces = []\<rparr>"
      "eth None"]
  by (simp add: ec2_defs Instance_init_def Instance_add_def set_tail_fields_def Resource_init_def
      str_isalnum_def char_isalnum_def NetworkInterface_init_def dict_contains_def dict_set_def
      dict_keys_def Let_def)

section \<open>Resource\<close>

text \<open>
  C5, as the claim states it: construction succeeds only for names of ASCII letters and
  digits. It does not: \<open>str.isalnum\<close> accepts the letters and digits of Unicode, so the
  name of the one character U+00E9 (e with acute accent), which is outside
  \<open>[a-zA-Z0-9]\<close>, gives a resource.
\<close>

theorem latin_letter_name_accepted:
  "Resource_init [CHR 0xE9] (IsAWSType EC2_VPC) =
     Inr \<lparr>resource.name = [CHR 0xE9], kind = EC2_VPC, depends = None, payload = P_Resource\<rparr> \<and>
   \<not> re_alnum (CHR 0xE9) \<and> (of_char (CHR 0xE9) :: nat) = 233"
  by (simp add: Resource_init_def str_isalnum_def char_isalnum_def re_alnum_def)

text \<open>
  C5, amended. With a kind of the enumeration: a non-empty name of ASCII letters and
  digits gives the resource of that name and kind, with no dependency; construction
  succeeds exactly when the name is non-empty and each of its characters is alphanumeric
  as \<open>str.isalnum\<close> has it, which holds for letters and digits outside ASCII too; an
  empty name, or a name with a character that is not alphanumeric in that sense (any
  ASCII character that is not a letter or a digit is one), fails with the assertion on
  the name (the specification's InvalidIdentifierError).
\<close>

theorem Resource_init_name:
  "(n \<noteq> [] \<and> list_all re_alnum n \<longrightarrow>
      Resource_init n (IsAWSType k) =
        Inr \<lparr>resource.name = n, kind = k, depends = None, payload = P_Resource\<rparr>) \<and>
   ((\<exists>r. Resource_init n (IsAWSType k) = Inr r) \<longleftrightarrow> n \<noteq> [] \<and> list_all char_isalnum n) \<and>
   (n = [] \<or> (\<exists>c \<in> set n. \<not> char_isalnum c) \<longrightarrow>
      Resource_init n (IsAWSType k) =
        Inl (AssertionError (''resource name should be alphanumeric: found '' @ n))) \<and>
   ((\<exists>c \<in> set n. (of_char c :: nat) < 128 \<and> \<not> re_alnum c) \<longrightarrow>
      Resource_init n (IsAWSType k) =
        Inl (AssertionError (''resource name should be alphanumeric: found '' @ n)))"
proof (intro conjI impI)
  assume "n \<noteq> [] \<and> list_all re_alnum n"
  then have "str_isalnum n"
    by (auto simp: str_isalnum_def list_all_iff intro: re_alnum_isalnum)
  then show "Resource_init n (IsAWSType k) =
        Inr \<lparr>resource.name = n, kind = k, depends = None, payload = P_Resource\<rparr>"
    by (simp add: Resource_init_def)
next
  show "(\<exists>r. Resource_init n (IsAWSType k) = Inr r) \<longleftrightarrow> n \<noteq> [] \<and> list_all char_isalnum n"
    by (auto simp: Resource_init_def str_isalnum_def)
next
  assume "n = [] \<or> (\<exists>c \<in> set n. \<not> char_isalnum c)"
  then have "\<not> str_isalnum n"
    by (auto simp: str_isalnum_def list_all_iff)
  then show "Resource_init n (IsAWSType k) =
        Inl (AssertionError (''resource name should be alphanumeric: found '' @ n))"
    by (simp add: Resource_init_def)
next
  assume "\<exists>c \<in> set n. (of_char c :: nat) < 128 \<and> \<not> re_alnum c"
  then obtain c where "c \<in> set n" and "\<not> char_isalnum c"
    using ascii_isalnum by blast
  then have "\<not> str_isalnum n"
    by (auto simp: str_isalnum_def list_all_iff)
  then show "Resource_init n (IsAWSType k) =
        Inl (AssertionError (''resource name should be alphanumeric: found '' @ n))"
    by (simp add: Resource_init_def)
qed

text \<open>
  The name \<open>Web1\<close> is accepted; \<open>my-vpc\<close>, with its hyphen, and the empty name are
  refused.
\<close>

theorem Resource_init_name_witness:
  "''Web1'' \<noteq> [] \<and> list_all re_alnum ''Web1'' \<and>
   Resource_init ''Web1'' (IsAWSType EC2_INSTANCE) =
     Inr \<lparr>resource.name = ''Web1'', kind = EC2_INSTANCE, depends = None, payload = P_Resource\<rparr> \<and>
   CHR ''-'' \<in> set ''my-vpc'' \<and> (of_char (CHR ''-'') :: nat) < 128 \<and> \<not> re_alnum (CHR ''-'') \<and>
   \<not> char_isalnum (CHR ''-'') \<and>
   Resource_init ''my-vpc'' (IsAWSType EC2_VPC) =
     Inl (AssertionError ''resource name should be alphanumeric: found my-vpc'') \<and>
   Resource_init [] (IsAWSType EC2_VPC) =
     Inl (AssertionError ''resource name should be alphanumeric: found '')"
  using Resource_init_name[of "''Web1''" EC2_INSTANCE] Resource_init_name[of "''my-vpc''" EC2_VPC]
    Resource_init_name[of "[]" EC2_VPC]
  by (simp add: re_alnum_def char_isalnum_def)

text \<open>
  C6. \<open>getatt\<close> returns the \<open>GetAtt\<close> of the resource's name and the attribute when the
  attribute is in \<open>ATTRIBUTES\<close> of the resource's class, and raises the assertion (the
  specification's InvalidAttributeError) otherwise; it returns exactly when the attribute
  is declared. The result is that of the call itself: nothing is left to
  serialization. The class fixes the kind: an instance as its constructor returns it
  has the kind \<open>EC2_INSTANCE\<close> and the five attributes of \<open>Instance\<close>, a VPC the kind
  \<open>EC2_VPC\<close> and the five of \<open>VPC\<close>.
\<close>

theorem Resource_getatt_declared:
  "(a \<in> set (ATTRIBUTES (class_of r)) \<longrightarrow>
      Resource_getatt r a = Inr (GetAtt (resource.name r) a)) \<and>
   (a \<notin> set (ATTRIBUTES (class_of r)) \<longrightarrow>
      Resource_getatt r a = Inl (AssertionError (''invalid attribute '' @ a))) \<and>
   ((\<exists>g. Resource_getatt r a = Inr g) \<longleftrightarrow> a \<in> set (ATTRIBUTES (class_of r))) \<and>
   (Instance_init n img ty sz = Inr r \<longrightarrow>
      kind r = EC2_INSTANCE \<and>
      ATTRIBUTES (class_of r) =
        [''AvailabilityZone'', ''PrivateDnsName'', ''PublicDnsName'', ''PrivateIp'', ''PublicIp'']) \<and>
   (VPC_init n c = Inr r \<longrightarrow>
      kind r = EC2_VPC \<and>
      ATTRIBUTES (class_of r) =
        [''CidrBlock'', ''CidrBlockAssociations'', ''DefaultNetworkAcl'', ''DefaultSecurityGroup'',
         ''Ipv6CidrBlocks''])"
proof (intro conjI impI)
  assume "Instance_init n img ty sz = Inr r"
  then have "kind r = EC2_INSTANCE \<and> class_of r = C_Instance"
    by (auto simp: Instance_init_def Instance_add_def set_tail_fields_def Resource_init_def
        Let_def class_of_def
        split: sum.splits image_arg.splits option.splits if_splits)
  then show "kind r = EC2_INSTANCE"
    and "ATTRIBUTES (class_of r) =
        [''AvailabilityZone'', ''PrivateDnsName'', ''PublicDnsName'', ''PrivateIp'', ''PublicIp'']"
    by simp_all
next
  assume "VPC_init n c = Inr r"
  then have "kind r = EC2_VPC \<and> class_of r = C_VPC"
    by (auto simp: VPC_init_def Resource_init_def class_of_def split: sum.splits if_splits)
  then show "kind r = EC2_VPC"
    and "ATTRIBUTES (class_of r) =
        [''CidrBlock'', ''CidrBlockAssociations'', ''DefaultNetworkAcl'', ''DefaultSecurityGroup'',
         ''Ipv6CidrBlocks'']"
    by simp_all
qed (auto simp: Resource_getatt_def)

text \<open>
  The instance \<open>Web\<close> declares \<open>PublicIp\<close> and not \<open>Bogus\<close>; the VPC \<open>Net\<close> declares
  \<open>CidrBlock\<close>.
\<close>

theorem Resource_getatt_declared_witness:
  "Instance_init ''Web'' (IsAMI ami) ''t2.micro'' None = Inr (web [] []) \<and>
   kind (web [] []) = EC2_INSTANCE \<and>
   ''PublicIp'' \<in> set (ATTRIBUTES (class_of (web [] []))) \<and>
   Resource_getatt (web [] []) ''PublicIp'' = Inr (GetAtt ''Web'' ''PublicIp'') \<and>
   ''Bogus'' \<notin> set (ATTRIBUTES (class_of (web [] []))) \<and>
   Resource_getatt (web [] []) ''Bogus'' = Inl (AssertionError ''invalid attribute Bogus'') \<and>
   VPC_init ''Net'' ''10.0.0.0/16'' = Inr net_a \<and>
   kind net_a = EC2_VPC \<and>
   Resource_getatt net_a ''CidrBlock'' = Inr (GetAtt ''Net'' ''CidrBlock'')"
  using Resource_getatt_declared[of "''PublicIp''" "web [] []" "''Web''" "IsAMI ami" "''t2.micro''" None]
    Resource_getatt_declared[of "''Bogus''" "web [] []"]
    Resource_getatt_declared[of "''CidrBlock''" net_a "''Net''" _ _ _ "''10.0.0.0/16''"]
  by (simp add: ec2_defs ex_defs class_of_def Instance_init_def set_tail_fields_def VPC_init_def
      Resource_init_def str_isalnum_def char_isalnum_def)

text \<open>
  C7. \<open>export\<close> returns the dictionary of \<open>Type\<close>, bound to the value of the kind, and
  \<open>Properties\<close>, bound to the properties of the resource, and, when \<open>depends\<close> is set,
  of \<open>DependsOn\<close>, bound to it; when \<open>depends\<close> is \<open>None\<close> the key \<open>DependsOn\<close> is
  absent. The route \<open>Out\<close> exports its dependency on \<open>Attach\<close>.
\<close>

theorem Resource_export_keys:
  "Resource_export r =
     (case depends r of
        None \<Rightarrow>
          [(''Type'', VStr (AWSType_value (kind r))), (''Properties'', VDict (properties r))]
      | Some d \<Rightarrow>
          [(''Type'', VStr (AWSType_value (kind r))), (''Properties'', VDict (properties r)),
           (''DependsOn'', VStr d)]) \<and>
   dict_keys (Resource_export r) =
     (if depends r = None then [''Type'', ''Properties'']
      else [''Type'', ''Properties'', ''DependsOn'']) \<and>
   dict_contains (Resource_export r) ''DependsOn'' = (depends r \<noteq> None) \<and>
   Resource_export route_r =
     [(''Type'', VStr ''AWS::EC2::Route''),
      (''Properties'', VDict [(''RouteTableId'', VRef (Ref ''Table'')),
                             (''DestinationCidrBlock'', VStr ''0.0.0.0/0''),
                             (''GatewayId'', VRef (Ref ''Gate''))]),
      (''DependsOn'', VStr ''Attach'')]"
  by (cases "depends r")
     (simp_all add: Resource_export_def dict_set_def dict_keys_def dict_contains_def route_r_def
        properties_def obj_ref_def)

section \<open>Serialization of references\<close>

text \<open>
  C8. The dumper represents a \<open>Ref\<close> by the scalar tagged \<open>!Ref\<close> of the resource's name,
  a \<open>GetAtt\<close> by the scalar tagged \<open>!GetAtt\<close> of the name, a dot and the attribute, a
  \<open>Base64\<close> by the scalar tagged \<open>!Base64\<close> of the content; these are the tags the
  specification calls reference, attribute-of and encode.
\<close>

theorem reference_scalars:
  "represent_data (VRef (Ref n)) = ScalarNode ''!Ref'' n \<and>
   represent_data (VGetAtt (GetAtt n a)) = ScalarNode ''!GetAtt'' (n @ ''.'' @ a) \<and>
   represent_data (VBase64 (Base64 c)) = ScalarNode ''!Base64'' c \<and>
   ref_representer (Ref n) = ScalarNode ''!Ref'' n \<and>
   getatt_representer (GetAtt n a) = ScalarNode ''!GetAtt'' (n @ ''.'' @ a) \<and>
   base64_representer (Base64 c) = ScalarNode ''!Base64'' c \<and>
   represent_data (VRef (Resource_ref r)) = ScalarNode ''!Ref'' (resource.name r) \<and>
   represent_data (VGetAtt (Instance_public_ip r)) =
     ScalarNode ''!GetAtt'' (resource.name r @ ''.PublicIp'')"
  by (simp add: represent_scalar_def Resource_ref_def Instance_public_ip_def)

section \<open>Stack.export and Stack.body\<close>

text \<open>
  C9. \<open>body\<close> leaves the stack as it was, so a second call, on the stack the first one
  leaves, returns the same text. When the resources of the stack have distinct names,
  \<open>Resources\<close> of \<open>export\<close> lists their exports under their names in the order of the
  stack's mapping; for a stack built from an empty one by calls of \<open>add\<close> that all
  returned, this is the order in which the resources were added.
\<close>

theorem body_repeatable_and_ordered:
  "Stack_body emit (snd (Stack_body emit S)) = Stack_body emit S \<and>
   snd (Stack_body emit S) = S \<and>
   (distinct (map resource.name (dict_values (resources S))) \<longrightarrow>
      dict_get (Stack_export S) ''Resources'' =
        Some (VDict (map (\<lambda>r. (resource.name r, VDict (Resource_export r)))
                       (dict_values (resources S))))) \<and>
   (add_each \<lparr>resources = [], Stack.name = n, Stack.description = d\<rparr> rs = (Returned, S') \<longrightarrow>
      dict_values (resources S') = rs \<and>
      dict_get (Stack_export S') ''Resources'' =
        Some (VDict (map (\<lambda>r. (resource.name r, VDict (Resource_export r))) rs)))"
proof (intro conjI impI)
  show "Stack_body emit (snd (Stack_body emit S)) = Stack_body emit S"
    by (simp add: Stack_body_def)
  show "snd (Stack_body emit S) = S"
    by (simp add: Stack_body_def)
next
  assume "distinct (map resource.name (dict_values (resources S)))"
  then show "dict_get (Stack_export S) ''Resources'' =
        Some (VDict (map (\<lambda>r. (resource.name r, VDict (Resource_export r)))
                       (dict_values (resources S))))"
    by (simp add: Stack_export_Resources fold_dict_set_fresh)
next
  assume a: "add_each \<lparr>resources = [], Stack.name = n, Stack.description = d\<rparr> rs = (Returned, S')"
  from add_each_returned[OF a]
  have r: "resources S' = map (\<lambda>r. (resource.name r, r)) rs" and dis: "distinct (map resource.name rs)"
    by simp_all
  from r show v: "dict_values (resources S') = rs"
    by (simp add: dict_values_def comp_def)
  from dis show "dict_get (Stack_export S') ''Resources'' =
        Some (VDict (map (\<lambda>r. (resource.name r, VDict (Resource_export r))) rs))"
    by (simp add: Stack_export_Resources v fold_dict_set_fresh)
qed

text \<open>
  The stack \<open>a\<close> with \<open>Net\<close> added before \<open>Gate\<close>: \<open>Resources\<close> lists \<open>Net\<close> first.
\<close>

theorem body_repeatable_and_ordered_witness:
  "add_each \<lparr>resources = [], Stack.name = ''a'', Stack.description = None\<rparr>
     [net_a, gateway ''Gate''] = (Returned, stack_ng) \<and>
   distinct (map resource.name (dict_values (resources stack_ng))) \<and>
   dict_values (resources stack_ng) = [net_a, gateway ''Gate''] \<and>
   dict_get (Stack_export stack_ng) ''Resources'' =
     Some (VDict
       [(''Net'', VDict [(''Type'', VStr ''AWS::EC2::VPC''),
                         (''Properties'', VDict [(''CidrBlock'', VStr ''10.0.0.0/16'')])]),
        (''Gate'', VDict [(''Type'', VStr ''AWS::EC2::InternetGateway''),
                          (''Properties'', VDict [])])])"
  using body_repeatable_and_ordered[of _ stack_ng "''a''" None "[net_a, gateway ''Gate'']" stack_ng]
  by (simp add: stack_ng_def ex_defs stack_defs Resource_export_def properties_def)

section \<open>codecommit.Repository\<close>

text \<open>
  C10. For every name and description the constructor of \<open>Repository\<close> raises
  \<open>AttributeError\<close>: no member of \<open>AWSType\<close>, whose members are all in
  \<open>AWSType_members\<close>, is named \<open>CODE_COMMIT_REPOSITORY\<close>. It returns no resource, so
  adding the repository to a stack, or exporting it, never takes place.
\<close>

theorem Repository_init_fails:
  "Repository_init n d = Inl (AttributeError ''CODE_COMMIT_REPOSITORY'') \<and>
   (\<forall>k. AWSType_name k \<noteq> ''CODE_COMMIT_REPOSITORY'') \<and>
   set AWSType_members = UNIV \<and>
   AWSType_getattr ''CODE_COMMIT_REPOSITORY'' = Inl (AttributeError ''CODE_COMMIT_REPOSITORY'') \<and>
   (\<forall>r. Repository_init n d \<noteq> Inr r) \<and>
   (case Repository_init n d of
      Inl e \<Rightarrow> Inl e
    | Inr r \<Rightarrow> Inr (Stack_add S (EResource r), Resource_export r)) =
     Inl (AttributeError ''CODE_COMMIT_REPOSITORY'')"
proof -
  have g: "AWSType_getattr ''CODE_COMMIT_REPOSITORY'' = Inl (AttributeError ''CODE_COMMIT_REPOSITORY'')"
    by (simp add: AWSType_getattr_def AWSType_members_def)
  have r: "Repository_init n d = Inl (AttributeError ''CODE_COMMIT_REPOSITORY'')"
    by (simp add: Repository_init_def g)
  have m: "\<forall>k. AWSType_name k \<noteq> ''CODE_COMMIT_REPOSITORY''"
  proof
    fix k show "AWSType_name k \<noteq> ''CODE_COMMIT_REPOSITORY''" by (cases k) simp_all
  qed
  have u: "set AWSType_members = UNIV"
  proof -
    have "k \<in> set AWSType_members" for k
      by (cases k) (simp_all add: AWSType_members_def)
    then show ?thesis by auto
  qed
  show ?thesis using g r m u by simp
qed

end
